theory Spec2Isabelle
  imports Main "HOL-Library.Sublist"
begin

section \<open>The match model (matcher.ts)\<close>

text \<open>
  Positions are JavaScript numbers that index the input; they are modelled as integers.
  \<^verbatim>\<open>class Span { constructor(public readonly start: number, public readonly end: number) }\<close>
  The field \<^verbatim>\<open>end\<close> is written \<open>end'\<close>.
\<close>

datatype Span = Span (start: int) (end': int)

text \<open>
  \<^verbatim>\<open>
  export function mergeSpan(span1: Span, span2: Span): Span {
    return (span1.start < span2.start || span1.end < span2.end) ?
      new Span(span1.start, span2.end) : new Span(span2.start, span1.end);
  }
  \<close>
\<close>

definition mergeSpan :: "Span \<Rightarrow> Span \<Rightarrow> Span" where
  "mergeSpan span1 span2 =
     (if start span1 < start span2 \<or> end' span1 < end' span2
      then Span (start span1) (end' span2)
      else Span (start span2) (end' span1))"

text \<open>
  Match values are untyped at run time. The combinators themselves build three kinds of
  value: \<^verbatim>\<open>undefined\<close> (\<open>optional\<close>), \<^verbatim>\<open>null\<close> (\<open>not\<close>) and arrays (\<open>repeat\<close>);
  every other value comes from the grammar's own leaves and reducers (\<open>Prim\<close>).
\<close>

datatype 'a val = Undefined | Null | Prim 'a | Arr "'a val list"

text \<open>The engine's task objects are opaque here: a failure only carries a link to one.\<close>

typedecl ParseTask

text \<open>
  \<^verbatim>\<open>class MatchSuccess<Out> { constructor(public span: Span, public value: Out) }\<close>
  The field \<^verbatim>\<open>value\<close> is written \<open>value'\<close>.
\<close>

datatype 'v MatchSuccess = MatchSuccess (span: Span) (value': 'v)

text \<open>
  Modelled from the spec: the field \<open>priority\<close> of a failure, which \<open>findBestFail\<close> reads and
  the class declaration at hand does not list. The spec gives it as a number carried by
  every failure, 0 unless a naming operation of the surrounding library tags the failure
  with another one. The other fields are the declared ones:
  \<^verbatim>\<open>class MatchFailure { constructor(public span: Span, public message: string, public task?) }\<close>
\<close>

datatype MatchFailure =
  MatchFailure (span: Span) (message: string) (priority: int) (task: "ParseTask option")

text \<open>\<^verbatim>\<open>type Match = MatchSuccess | MatchFailure\<close>, told apart by \<^verbatim>\<open>instanceof\<close>.\<close>

datatype 'v Match = Success "'v MatchSuccess" | Failure MatchFailure

text \<open>
  What a handler can throw: the error of \<open>repeat\<close> (with the position and the child
  parser its message names), and the TypeError of reading a property of \<^verbatim>\<open>undefined\<close>.
  The \<^verbatim>\<open>throw new Error("impossible")\<close> branches are taken by a match that is neither a
  success nor a failure; the type \<open>Match\<close> has no such value.
\<close>

datatype 'p error = NoProgress int 'p | TypeError

text \<open>
  \<^verbatim>\<open>`Repeating parser isn't making progress at position ${match.span.start}: ${children[0]}`\<close>
  The conversions of a number and of a parser to a string are parameters. The text of a
  TypeError is the JavaScript runtime's and is left open.
\<close>

fun error_message :: "(int \<Rightarrow> string) \<Rightarrow> ('p \<Rightarrow> string) \<Rightarrow> 'p error \<Rightarrow> string" where
  "error_message num_str parser_str (NoProgress pos p) =
     ''Repeating parser isn't making progress at position '' @ num_str pos @ '': '' @ parser_str p"

text \<open>The bound of a repetition: a number or \<^verbatim>\<open>Infinity\<close>; \<open>less_bound\<close> is \<^verbatim>\<open>count < max\<close>.\<close>

datatype bound = Finite int | Infinity

fun less_bound :: "int \<Rightarrow> bound \<Rightarrow> bool" where
  "less_bound n (Finite m) = (n < m)"
| "less_bound n Infinity = True"

text \<open>
  A \<^verbatim>\<open>Schedule\<close> holds a handler, a closure that the engine calls with the match of the
  scheduled parser. The closures that the combinators create are listed here, each with
  the variables it captures; \<open>run_handler\<close> below is their bodies.
  \<^item> \<open>ChainFirst\<close>: the handler of \<open>p1\<close> in \<open>chain\<close> (captures \<open>children[1]\<close>, \<open>combiner\<close>);
  \<^item> \<open>ChainSecond\<close>: the handler of \<open>p2\<close> in \<open>chain\<close> (captures \<open>span1\<close>, \<open>value1\<close>, \<open>combiner\<close>);
  \<^item> \<open>AltHandler\<close>: the handler of every alternative of one activation of \<open>alt\<close>
    (captures the variables \<open>count\<close> and \<open>fails\<close> of that activation, by their address
    in the heap, and \<open>children\<close>, \<open>index\<close>, and \<open>parser\<close> by its description);
  \<^item> \<open>DeferHandler\<close>: \<^verbatim>\<open>match => [ match ]\<close> of \<open>defer\<close>;
  \<^item> \<open>CheckHandler\<close>: the handler in \<open>check\<close> (captures \<open>index\<close>);
  \<^item> \<open>NotHandler\<close>: the handler in \<open>not\<close> (captures \<open>index\<close>, \<open>parser\<close>);
  \<^item> \<open>RepeatHandler\<close>: \<^verbatim>\<open>match => process(match, count, accumulator)\<close> in \<open>repeat\<close>
    (captures \<open>children[0]\<close>, \<open>min\<close>, \<open>max\<close>, \<open>index\<close>, \<open>parser\<close>, \<open>count\<close>, \<open>accumulator\<close>).
\<close>

datatype ('p, 'a) handler =
    ChainFirst 'p "'a val \<Rightarrow> 'a val \<Rightarrow> 'a val"
  | ChainSecond Span "'a val" "'a val \<Rightarrow> 'a val \<Rightarrow> 'a val"
  | AltHandler nat "'p list" int string
  | DeferHandler
  | CheckHandler int
  | NotHandler int string
  | RepeatHandler 'p int bound int string int "'a val list"

text \<open>
  \<^verbatim>\<open>class Schedule { constructor(public parser, public index: number, public handler) }\<close>
  \<^verbatim>\<open>type MatchResult = (Match | Schedule)[]\<close>
\<close>

datatype ('p, 'a) item = Terminal "'a val Match" | Schedule 'p int "('p, 'a) handler"

type_synonym ('p, 'a) MatchResult = "('p, 'a) item list"

text \<open>
  \<^verbatim>\<open>fail(index, message | parser, task?)\<close>: given a parser, the message is
  \<^verbatim>\<open>"Expected " + parser.description\<close>. The parser is passed by its description (\<open>Inr\<close>),
  a plain message as \<open>Inl\<close>. The new failure has the default priority.
\<close>

definition fail :: "int \<Rightarrow> string + string \<Rightarrow> ParseTask option \<Rightarrow> ('p, 'a) MatchResult" where
  "fail index msg tk =
     [Terminal (Failure (MatchFailure (Span index index)
        (case msg of Inr description \<Rightarrow> ''Expected '' @ description | Inl m \<Rightarrow> m) 0 tk))]"

definition success :: "int \<Rightarrow> int \<Rightarrow> 'a val \<Rightarrow> ('p, 'a) MatchResult" where
  "success s e v = [Terminal (Success (MatchSuccess (Span s e) v))]"

definition schedule :: "'p \<Rightarrow> int \<Rightarrow> ('p, 'a) handler \<Rightarrow> ('p, 'a) MatchResult" where
  "schedule parser index h = [Schedule parser index h]"

definition defer' :: "'p \<Rightarrow> int \<Rightarrow> ('p, 'a) MatchResult" where
  "defer' parser index = [Schedule parser index DeferHandler]"

text \<open>\<^verbatim>\<open>mapMatch(match, f)\<close>: pass failures through, but map successes.\<close>

definition mapMatch ::
  "'a val Match \<Rightarrow> (Span \<Rightarrow> 'a val \<Rightarrow> ('p, 'a) MatchResult) \<Rightarrow> ('p, 'a) MatchResult" where
  "mapMatch m f =
     (case m of
        Failure fl \<Rightarrow> [Terminal (Failure fl)]
      | Success s \<Rightarrow> f (MatchSuccess.span s) (value' s))"

section \<open>The combinators (combiners.ts)\<close>

text \<open>
  A combinator builds a \<^verbatim>\<open>Parser\<close> around a matcher
  \<^verbatim>\<open>(stream, index) => MatchResult\<close>; each definition below is that matcher, as a
  function of the combinator's arguments. The child parsers (\<open>children[i]\<close>, the resolved
  arguments) are values of an arbitrary type \<open>'p\<close>. Where a matcher reads
  \<^verbatim>\<open>parser.description\<close> of the parser it belongs to, the description is an argument:
  the class \<^verbatim>\<open>Parser\<close> that computes it is outside these sources.
\<close>

subsection \<open>chain\<close>

text \<open>
  \<^verbatim>\<open>
  return (stream, index) => {
    return schedule(children[0], index, (match1) => {
      return mapMatch(match1, (span1, value1) => {
        return schedule(children[1], span1.end, (match2) => {
          return mapMatch(match2, (span2, value2) => {
            return [ new MatchSuccess(mergeSpan(span1, span2), combiner(value1, value2)) ];
          });
        });
      });
    });
  };
  \<close>
\<close>

definition chain ::
  "'p \<Rightarrow> 'p \<Rightarrow> ('a val \<Rightarrow> 'a val \<Rightarrow> 'a val) \<Rightarrow> 's list \<Rightarrow> int \<Rightarrow> ('p, 'a) MatchResult" where
  "chain p1 p2 combiner stream index = schedule p1 index (ChainFirst p2 combiner)"

definition chain_first ::
  "'p \<Rightarrow> ('a val \<Rightarrow> 'a val \<Rightarrow> 'a val) \<Rightarrow> 'a val Match \<Rightarrow> ('p, 'a) MatchResult" where
  "chain_first p2 combiner match1 =
     mapMatch match1 (\<lambda>span1 value1. schedule p2 (end' span1) (ChainSecond span1 value1 combiner))"

definition chain_second ::
  "Span \<Rightarrow> 'a val \<Rightarrow> ('a val \<Rightarrow> 'a val \<Rightarrow> 'a val) \<Rightarrow> 'a val Match \<Rightarrow> ('p, 'a) MatchResult" where
  "chain_second span1 value1 combiner match2 =
     mapMatch match2 (\<lambda>span2 value2.
       [Terminal (Success (MatchSuccess (mergeSpan span1 span2) (combiner value1 value2)))])"

subsection \<open>alt\<close>

text \<open>
  One activation of \<open>alt\<close> owns two variables, \<^verbatim>\<open>let count = 0; const fails = []\<close>,
  which the handlers of all its alternatives share and update. They live in a heap: each
  call of the matcher allocates a new cell.
\<close>

record alt_vars =
  count :: nat
  fails :: "MatchFailure list"

record heap =
  cells :: "nat \<Rightarrow> alt_vars"
  fresh :: nat

text \<open>
  \<^verbatim>\<open>
  const findBestFail = (index, fails) => {
    let best = fails[0];
    fails.forEach(f => {
      if (f.priority > best.priority ||
          (f.priority == best.priority && f.span.start > best.span.start)) best = f;
    });
    if (best.span.start == index && best.priority == 0) {
      return fail(index, parser);
    } else {
      return [ best ];
    }
  }
  \<close>
  \<open>best_step\<close> is the body of the loop and \<open>best_after_loop\<close> the value of \<open>best\<close> when the
  loop is done. On an empty array \<open>best\<close> is \<^verbatim>\<open>undefined\<close> (\<open>None\<close>), the loop does nothing
  and the read of \<^verbatim>\<open>best.span\<close> throws.
\<close>

definition best_step :: "MatchFailure \<Rightarrow> MatchFailure \<Rightarrow> MatchFailure" where
  "best_step best f =
     (if priority f > priority best \<or>
         (priority f = priority best \<and>
          start (MatchFailure.span f) > start (MatchFailure.span best))
      then f else best)"

definition best_after_loop :: "MatchFailure list \<Rightarrow> MatchFailure option" where
  "best_after_loop fls = (case fls of [] \<Rightarrow> None | f0 # _ \<Rightarrow> Some (foldl best_step f0 fls))"

definition findBestFail ::
  "string \<Rightarrow> int \<Rightarrow> MatchFailure list \<Rightarrow> 'p error + ('p, 'a) MatchResult" where
  "findBestFail description index fls =
     (case best_after_loop fls of
        None \<Rightarrow> Inl TypeError
      | Some best \<Rightarrow>
          (if start (MatchFailure.span best) = index \<and> priority best = 0
           then Inr (fail index (Inr description) None)
           else Inr [Terminal (Failure best)]))"


text \<open>
  \<^verbatim>\<open>
  (match) => {
    if (match instanceof MatchSuccess) {
      return [ match ];
    } else if (match instanceof MatchFailure) {
      fails.push(match);
    } else {
      throw new Error("impossible");
    }
    count++;
    if (count == children.length && count == fails.length) {
      return findBestFail(index, fails);
    }
    return [];
  }
  \<close>
\<close>

definition alt_handler ::
  "nat \<Rightarrow> 'p list \<Rightarrow> int \<Rightarrow> string \<Rightarrow> 'a val Match \<Rightarrow> heap
   \<Rightarrow> ('p error + ('p, 'a) MatchResult) \<times> heap" where
  "alt_handler a children index description m h =
     (case m of
        Success s \<Rightarrow> (Inr [Terminal (Success s)], h)
      | Failure f \<Rightarrow>
          (let fails' = fails (cells h a) @ [f];
               count' = count (cells h a) + 1;
               h' = h\<lparr>cells := (cells h)(a := \<lparr>count = count', fails = fails'\<rparr>)\<rparr>
           in if count' = length children \<and> count' = length fails'
              then (findBestFail description index fails', h')
              else (Inr [], h')))"

subsection \<open>optional, optionalOr\<close>

text \<open>
  \<^verbatim>\<open>
  return (stream, index) => {
    return defer(children[0], index).concat(success(index, index, defaultValue));
  };
  \<close>
  and \<^verbatim>\<open>optional(p) = optionalOr(p, undefined)\<close>.
\<close>

definition optionalOr :: "'p \<Rightarrow> 'a val \<Rightarrow> 's list \<Rightarrow> int \<Rightarrow> ('p, 'a) MatchResult" where
  "optionalOr p defaultValue stream index = defer' p index @ success index index defaultValue"

definition optional :: "'p \<Rightarrow> 's list \<Rightarrow> int \<Rightarrow> ('p, 'a) MatchResult" where
  "optional p = optionalOr p Undefined"

subsection \<open>check, not\<close>

text \<open>
  \<^verbatim>\<open>
  return (stream, index) => {
    return schedule(children[0], index, (match) => {
      return mapMatch(match, (span, value) => success(index, index, value));
    });
  };
  \<close>
\<close>

definition check :: "'p \<Rightarrow> 's list \<Rightarrow> int \<Rightarrow> ('p, 'a) MatchResult" where
  "check p stream index = schedule p index (CheckHandler index)"

definition check_handler :: "int \<Rightarrow> 'a val Match \<Rightarrow> ('p, 'a) MatchResult" where
  "check_handler index m = mapMatch m (\<lambda>span value. success index index value)"


definition not_handler :: "int \<Rightarrow> string \<Rightarrow> 'a val Match \<Rightarrow> ('p, 'a) MatchResult" where
  "not_handler index description m =
     (case m of
        Success s \<Rightarrow> fail index (Inr description) None
      | Failure f \<Rightarrow> success index index Null)"

subsection \<open>repeat\<close>

text \<open>
  \<^verbatim>\<open>interface RepeatOptions { min?: number; max?: number; }\<close>
  A field that is left out is \<open>None\<close>. The fields are written \<open>min'\<close> and \<open>max'\<close>.
\<close>

record RepeatOptions =
  min' :: "int option"
  max' :: "int option"

text \<open>
  \<^verbatim>\<open>
  function next(count, accumulator, pos) {
    const rv = [];
    if (count >= min) rv.push(new MatchSuccess(new Span(index, pos), accumulator));
    if (count < max) rv.push(new Schedule(children[0], pos, (match) => {
      return process(match, count, accumulator);
    }));
    return rv;
  }
  \<close>
\<close>

definition repeat_next ::
  "'p \<Rightarrow> int \<Rightarrow> bound \<Rightarrow> int \<Rightarrow> string \<Rightarrow> int \<Rightarrow> 'a val list \<Rightarrow> int \<Rightarrow> ('p, 'a) MatchResult" where
  "repeat_next p mn mx index description cnt accumulator pos =
     (if cnt \<ge> mn then [Terminal (Success (MatchSuccess (Span index pos) (Arr accumulator)))] else [])
     @ (if less_bound cnt mx
        then [Schedule p pos (RepeatHandler p mn mx index description cnt accumulator)] else [])"

text \<open>
  \<^verbatim>\<open>
  function process(match, count, accumulator) {
    if (match instanceof MatchFailure) {
      if (count < min) {
        return [ new MatchFailure(new Span(index, match.span.start), "Expected " + parser.description) ];
      } else {
        return [];
      }
    } else if (match instanceof MatchSuccess) {
      if (match.span.start == match.span.end) {
        throw new Error(`Repeating parser isn't making progress at position ...`);
      }
      return next(count + 1, accumulator.concat([ match.value ]), match.span.end);
    } else {
      throw new Error("impossible");
    }
  }
  \<close>
\<close>

definition repeat_process ::
  "'p \<Rightarrow> int \<Rightarrow> bound \<Rightarrow> int \<Rightarrow> string \<Rightarrow> 'a val Match \<Rightarrow> int \<Rightarrow> 'a val list
   \<Rightarrow> 'p error + ('p, 'a) MatchResult" where
  "repeat_process p mn mx index description m cnt accumulator =
     (case m of
        Failure f \<Rightarrow>
          (if cnt < mn
           then Inr [Terminal (Failure (MatchFailure (Span index (start (MatchFailure.span f)))
                                          (''Expected '' @ description) 0 None))]
           else Inr [])
      | Success s \<Rightarrow>
          (if start (MatchSuccess.span s) = end' (MatchSuccess.span s)
           then Inl (NoProgress (start (MatchSuccess.span s)) p)
           else Inr (repeat_next p mn mx index description (cnt + 1)
                       (accumulator @ [value' s]) (end' (MatchSuccess.span s)))))"

text \<open>
  \<^verbatim>\<open>
  const min = options.min || 0;
  const max = options.max || Infinity;
  ...
  return (stream, index) => {
    return next(0, [], index);
  \<close>
  \<^verbatim>\<open>x || d\<close> is \<open>d\<close> when \<open>x\<close> is \<^verbatim>\<open>undefined\<close> or 0; \<open>repeat_min\<close> and \<open>repeat_max\<close> are the two
  constants.
\<close>

definition repeat_min :: "RepeatOptions \<Rightarrow> int" where
  "repeat_min options = (case min' options of None \<Rightarrow> 0 | Some m \<Rightarrow> if m = 0 then 0 else m)"

definition repeat_max :: "RepeatOptions \<Rightarrow> bound" where
  "repeat_max options =
     (case max' options of None \<Rightarrow> Infinity | Some m \<Rightarrow> if m = 0 then Infinity else Finite m)"

definition repeat ::
  "'p \<Rightarrow> RepeatOptions \<Rightarrow> string \<Rightarrow> 's list \<Rightarrow> int \<Rightarrow> ('p, 'a) MatchResult" where
  "repeat p options description stream index =
     repeat_next p (repeat_min options) (repeat_max options) index description 0 [] index"

subsection \<open>Calling a handler\<close>

text \<open>
  The body of each closure, run on the match the engine hands it. A handler returns its
  items or throws, and may update the heap.
\<close>

fun run_handler ::
  "('p, 'a) handler \<Rightarrow> 'a val Match \<Rightarrow> heap \<Rightarrow> ('p error + ('p, 'a) MatchResult) \<times> heap" where
  "run_handler (ChainFirst p2 combiner) m h = (Inr (chain_first p2 combiner m), h)"
| "run_handler (ChainSecond span1 value1 combiner) m h =
     (Inr (chain_second span1 value1 combiner m), h)"
| "run_handler (AltHandler a children index description) m h =
     alt_handler a children index description m h"
| "run_handler DeferHandler m h = (Inr [Terminal m], h)"
| "run_handler (CheckHandler index) m h = (Inr (check_handler index m), h)"
| "run_handler (NotHandler index description) m h = (Inr (not_handler index description m), h)"
| "run_handler (RepeatHandler p mn mx index description cnt accumulator) m h =
     (repeat_process p mn mx index description m cnt accumulator, h)"

section \<open>Observing an activation\<close>

text \<open>
  What can be seen of a result: the matches it holds, the parsers it schedules, and what
  a thrown error leaves (nothing).
\<close>

fun is_success :: "'v Match \<Rightarrow> bool" where
  "is_success (Success s) = True"
| "is_success (Failure f) = False"

fun terminals :: "('p, 'a) MatchResult \<Rightarrow> 'a val Match list" where
  "terminals [] = []"
| "terminals (Terminal m # r) = m # terminals r"
| "terminals (Schedule p i h # r) = terminals r"

fun schedules :: "('p, 'a) MatchResult \<Rightarrow> ('p \<times> int) list" where
  "schedules [] = []"
| "schedules (Terminal m # r) = schedules r"
| "schedules (Schedule p i h # r) = (p, i) # schedules r"

fun emitted :: "'e + ('p, 'a) MatchResult \<Rightarrow> 'a val Match list" where
  "emitted (Inl e) = []"
| "emitted (Inr r) = terminals r"


text \<open>
  \<open>reaches r0 r\<close>: the result \<open>r\<close> comes up in the activation that started with the result
  \<open>r0\<close>, by handing some match to a handler scheduled so far, any number of times.
\<close>

inductive reaches :: "('p, 'a) MatchResult \<Rightarrow> ('p, 'a) MatchResult \<Rightarrow> bool"
  for r0 :: "('p, 'a) MatchResult" where
  reaches_start: "reaches r0 r0"
| reaches_step:
    "reaches r0 r \<Longrightarrow> Schedule q i h \<in> set r \<Longrightarrow> run_handler h m hp = (Inr r', hp')
     \<Longrightarrow> reaches r0 r'"



section \<open>Spans\<close>

text \<open>
  C1 (as stated): for all spans \<open>(a, b)\<close> and \<open>(c, d)\<close> with \<open>a \<le> b\<close> and \<open>c \<le> d\<close>,
  \<open>mergeSpan\<close> is the covering span \<open>(min a c, max b d)\<close>. This fails when the second
  span lies strictly inside the first: for \<open>(0, 10)\<close> and \<open>(2, 5)\<close> the code answers
  \<open>(0, 5)\<close>, the covering span is \<open>(0, 10)\<close>.
\<close>

theorem mergeSpan_not_covering:
  "(0::int) \<le> 10 \<and> (2::int) \<le> 5 \<and>
   mergeSpan (Span 0 10) (Span 2 5) = Span 0 5 \<and>
   mergeSpan (Span 0 10) (Span 2 5) \<noteq> Span (min 0 2) (max 10 5)"
  by (simp add: mergeSpan_def)

text \<open>
  C1 (amended): for all spans \<open>(a, b)\<close> and \<open>(c, d)\<close> with \<open>a \<le> b\<close> and \<open>c \<le> d\<close>,
  \<open>mergeSpan\<close> is the covering span exactly when one of the two spans starts no later
  and ends no later than the other (neither sticks out of the other at both ends). This
  covers the use in \<open>chain\<close>, where the second span starts where the first one ends.
\<close>

theorem mergeSpan_covering_iff:
  assumes "a \<le> b" and "c \<le> d"
  shows "(mergeSpan (Span a b) (Span c d) = Span (min a c) (max b d))
         = ((a \<le> c \<and> b \<le> d) \<or> (c \<le> a \<and> d \<le> b))"
  using assms by (auto simp: mergeSpan_def min_def max_def)

theorem mergeSpan_covering_iff_witness:
  "(0::int) \<le> 3 \<and> (3::int) \<le> 7 \<and> mergeSpan (Span 0 3) (Span 3 7) = Span 0 7"
  using mergeSpan_covering_iff [of 0 3 3 7] by simp

section \<open>Sequencing\<close>

text \<open>
  C2: the matcher of \<open>chain p1 p2 f\<close> returns one item, a schedule of \<open>p1\<close> at \<open>index\<close>.
  Its handler, given a success \<open>(span1, v1)\<close> of \<open>p1\<close>, returns one item, a schedule of \<open>p2\<close>
  at the end of \<open>span1\<close>; that handler, given a success \<open>(span2, v2)\<close> of \<open>p2\<close>, returns exactly
  one success with span \<open>mergeSpan span1 span2\<close> and value \<open>f v1 v2\<close>. Either handler returns
  a failure it is given as it is, so a failure of \<open>p2\<close> keeps the span \<open>p2\<close> gave it.
\<close>

theorem chain_schedules_then_combines:
  "\<exists>h1. chain p1 p2 f stream index = [Schedule p1 index h1] \<and>
     (\<forall>span1 v1 hp. \<exists>h2.
        run_handler h1 (Success (MatchSuccess span1 v1)) hp
          = (Inr [Schedule p2 (end' span1) h2], hp) \<and>
        (\<forall>span2 v2 hp'.
           run_handler h2 (Success (MatchSuccess span2 v2)) hp'
             = (Inr [Terminal (Success (MatchSuccess (mergeSpan span1 span2) (f v1 v2)))], hp')) \<and>
        (\<forall>fl hp'. run_handler h2 (Failure fl) hp' = (Inr [Terminal (Failure fl)], hp'))) \<and>
     (\<forall>fl hp. run_handler h1 (Failure fl) hp = (Inr [Terminal (Failure fl)], hp))"
  by (simp add: chain_def schedule_def chain_first_def chain_second_def mapMatch_def)

section \<open>Optional parsers\<close>

text \<open>
  C6: the matcher of \<open>optionalOr p d\<close> returns exactly two items: a schedule of \<open>p\<close> at
  \<open>index\<close> whose handler returns the match of \<open>p\<close> as it is, and a success with span
  \<open>(index, index)\<close> and value \<open>d\<close>. \<open>optional p\<close> is \<open>optionalOr p undefined\<close>; when \<open>p\<close> succeeds
  at \<open>index\<close> with end \<open>e\<close>, the success ending at \<open>e\<close> (from the handler) stands beside the
  success ending at \<open>index\<close> (in the matcher's result).
\<close>

theorem optionalOr_two_items:
  "\<exists>h. optionalOr p d stream index
          = [Schedule p index h, Terminal (Success (MatchSuccess (Span index index) d))] \<and>
        (\<forall>m hp. run_handler h m hp = (Inr [Terminal m], hp)) \<and>
        optional p stream index
          = [Schedule p index h, Terminal (Success (MatchSuccess (Span index index) Undefined))] \<and>
        optional p stream index = optionalOr p Undefined stream index \<and>
        (\<forall>e v hp. run_handler h (Success (MatchSuccess (Span index e) v)) hp
                    = (Inr [Terminal (Success (MatchSuccess (Span index e) v))], hp))"
  by (simp add: optionalOr_def optional_def defer'_def success_def)

section \<open>Lookaround\<close>

text \<open>
  C7: the matcher of \<open>check p\<close> schedules \<open>p\<close> at \<open>index\<close>. For every match \<open>m\<close> that \<open>p\<close>
  reports there, the handler emits a success if and only if \<open>m\<close> is a success; the success
  it emits has the span \<open>(index, index)\<close> and the value of \<open>m\<close>; a failure is returned as
  it is.
\<close>

theorem check_zero_width:
  "\<exists>h. check p stream index = [Schedule p index h] \<and>
        (\<forall>sp v hp. run_handler h (Success (MatchSuccess sp v)) hp
                     = (Inr [Terminal (Success (MatchSuccess (Span index index) v))], hp)) \<and>
        (\<forall>fl hp. run_handler h (Failure fl) hp = (Inr [Terminal (Failure fl)], hp)) \<and>
        (\<forall>m hp. list_ex is_success (emitted (fst (run_handler h m hp))) = is_success m)"
  by (simp add: check_def schedule_def check_handler_def mapMatch_def success_def
           split: Match.split)









section \<open>Repetition\<close>

text \<open>Every handler that an activation of \<open>repeat\<close> schedules is its own closure over \<open>process\<close>.\<close>

lemma repeat_next_schedule:
  assumes "Schedule q i h \<in> set (repeat_next p mn mx index d cnt acc pos)"
  shows "q = p \<and> i = pos \<and> h = RepeatHandler p mn mx index d cnt acc \<and> less_bound cnt mx"
  using assms by (auto simp: repeat_next_def split: if_splits)

lemma repeat_reaches_handlers:
  assumes "reaches (repeat p options d stream index) r"
    and "Schedule q i h \<in> set r"
  shows "q = p \<and> (\<exists>cnt acc. h = RepeatHandler p (repeat_min options) (repeat_max options)
                                  index d cnt acc)"
  using assms
proof (induction arbitrary: q i h rule: reaches.induct)
  case reaches_start
  then show ?case
    by (auto simp: repeat_def dest: repeat_next_schedule)
next
  case (reaches_step r q' i' h' m hp r' hp')
  from reaches_step.IH [OF reaches_step.hyps(2)]
  obtain cnt acc where q': "q' = p"
    and h': "h' = RepeatHandler p (repeat_min options) (repeat_max options) index d cnt acc"
    by blast
  from reaches_step.hyps(3) h'
  have run: "repeat_process p (repeat_min options) (repeat_max options) index d m cnt acc = Inr r'"
    by simp
  show ?case
  proof (cases m)
    case (Success s)
    with run have "r' = repeat_next p (repeat_min options) (repeat_max options) index d
                          (cnt + 1) (acc @ [value' s]) (end' (MatchSuccess.span s))"
      by (auto simp: repeat_process_def split: if_splits)
    with reaches_step.prems show ?thesis
      by (auto dest: repeat_next_schedule)
  next
    case (Failure f)
    with run have "r' = [] \<or> (\<exists>t. r' = [Terminal t])"
      by (auto simp: repeat_process_def split: if_splits)
    with reaches_step.prems show ?thesis by auto
  qed
qed

lemma schedules_repeat_next:
  "schedules (repeat_next p mn mx index d cnt acc pos)
     = (if less_bound cnt mx then [(p, pos)] else [])"
  by (simp add: repeat_next_def)

text \<open>
  C4: in every result that an activation of \<open>repeat p options\<close> comes to, at every position,
  the handler scheduled for the child throws when it is handed a success of zero width
  (\<open>start = end\<close>): the call returns the error, whose message begins with
  \<^verbatim>\<open>Repeating parser isn't making progress at position\<close>, and no match, so no failure
  match, is emitted.
\<close>

theorem repeat_zero_width_throws:
  assumes "reaches (repeat p options d stream index) r"
    and "Schedule q i h \<in> set r"
    and "start sp = end' sp"
  shows "run_handler h (Success (MatchSuccess sp v)) hp = (Inl (NoProgress (start sp) p), hp) \<and>
         prefix ''Repeating parser isn't making progress at position''
           (error_message num_str parser_str (NoProgress (start sp) p)) \<and>
         emitted (fst (run_handler h (Success (MatchSuccess sp v)) hp)) = []"
proof -
  from repeat_reaches_handlers [OF assms(1,2)]
  obtain cnt acc
    where h: "h = RepeatHandler p (repeat_min options) (repeat_max options) index d cnt acc"
    by blast
  have run: "run_handler h (Success (MatchSuccess sp v)) hp = (Inl (NoProgress (start sp) p), hp)"
    using assms(3) by (simp add: h repeat_process_def)
  have msg: "prefix ''Repeating parser isn't making progress at position''
               (error_message num_str parser_str (NoProgress (start sp) p))"
    by (simp add: prefix_def)
  from run msg show ?thesis by simp
qed

theorem repeat_zero_width_throws_witness:
  "reaches (repeat (0::nat) \<lparr>min' = None, max' = None\<rparr> ''digit*'' ''12'' 0 :: (nat, nat) MatchResult)
     (repeat 0 \<lparr>min' = None, max' = None\<rparr> ''digit*'' ''12'' 0) \<and>
   Schedule 0 0 (RepeatHandler 0 0 Infinity 0 ''digit*'' 0 [])
     \<in> set (repeat (0::nat) \<lparr>min' = None, max' = None\<rparr> ''digit*'' ''12'' 0 :: (nat, nat) MatchResult) \<and>
   start (Span 0 0) = end' (Span 0 0) \<and>
   run_handler (RepeatHandler (0::nat) 0 Infinity 0 ''digit*'' 0 [])
     (Success (MatchSuccess (Span 0 0) (Prim (7::nat)))) \<lparr>cells = (\<lambda>_. \<lparr>count = 0, fails = []\<rparr>), fresh = 0\<rparr>
     = (Inl (NoProgress 0 0), \<lparr>cells = (\<lambda>_. \<lparr>count = 0, fails = []\<rparr>), fresh = 0\<rparr>)"
proof -
  let ?r = "repeat (0::nat) \<lparr>min' = None, max' = None\<rparr> ''digit*'' ''12'' 0 :: (nat, nat) MatchResult"
  have a: "reaches ?r ?r" by (rule reaches_start)
  have b: "Schedule 0 0 (RepeatHandler 0 0 Infinity 0 ''digit*'' 0 []) \<in> set ?r"
    by (simp add: repeat_def repeat_next_def repeat_min_def repeat_max_def)
  have c: "start (Span 0 0) = end' (Span 0 0)" by simp
  from repeat_zero_width_throws [OF a b c] a b c show ?thesis by simp
qed

text \<open>
  C5: \<open>repeat p options\<close> starts in the state \<open>(0, [], index)\<close>. In every state
  \<open>(cnt, acc, pos)\<close>, the result holds the success with span \<open>(index, pos)\<close> and value \<open>acc\<close>
  if \<open>cnt \<ge> min\<close> and no match otherwise; and the handler scheduled there, handed a failure
  of the child, returns exactly one failure with span \<open>(index, failure.span.start)\<close> and
  message \<^verbatim>\<open>"Expected " + description\<close> if \<open>cnt < min\<close>, and nothing if \<open>cnt \<ge> min\<close>.
\<close>

theorem repeat_state_outputs:
  "repeat p options d stream index
     = repeat_next p (repeat_min options) (repeat_max options) index d 0 [] index \<and>
   terminals (repeat_next p (repeat_min options) (repeat_max options) index d cnt acc pos)
     = (if cnt \<ge> repeat_min options
        then [Success (MatchSuccess (Span index pos) (Arr acc))] else []) \<and>
   (\<forall>q i h fl hp.
      Schedule q i h \<in> set (repeat_next p (repeat_min options) (repeat_max options)
                               index d cnt acc pos) \<longrightarrow>
      run_handler h (Failure fl) hp
        = (Inr (if cnt < repeat_min options
                then [Terminal (Failure (MatchFailure (Span index (start (MatchFailure.span fl)))
                                           (''Expected '' @ d) 0 None))]
                else []), hp))"
proof -
  have a: "terminals (repeat_next p (repeat_min options) (repeat_max options) index d cnt acc pos)
           = (if cnt \<ge> repeat_min options
              then [Success (MatchSuccess (Span index pos) (Arr acc))] else [])"
    by (simp add: repeat_next_def)
  have b: "run_handler h (Failure fl) hp
        = (Inr (if cnt < repeat_min options
                then [Terminal (Failure (MatchFailure (Span index (start (MatchFailure.span fl)))
                                           (''Expected '' @ d) 0 None))]
                else []), hp)"
    if "Schedule q i h \<in> set (repeat_next p (repeat_min options) (repeat_max options)
                               index d cnt acc pos)" for q i h fl hp
    using repeat_next_schedule [OF that] by (simp add: repeat_process_def)
  from a b show ?thesis by (simp add: repeat_def)
qed

theorem repeat_state_outputs_witness:
  "Schedule (0::nat) 5 (RepeatHandler 0 2 Infinity 3 ''digit{2+}'' 1 [Prim (7::nat)])
     \<in> set (repeat_next 0 (repeat_min \<lparr>min' = Some 2, max' = None\<rparr>)
               (repeat_max \<lparr>min' = Some 2, max' = None\<rparr>) 3 ''digit{2+}'' 1 [Prim 7] 5) \<and>
   run_handler (RepeatHandler (0::nat) 2 Infinity 3 ''digit{2+}'' 1 [Prim (7::nat)])
     (Failure (MatchFailure (Span 5 5) ''Expected digit'' 0 None))
     \<lparr>cells = (\<lambda>_. \<lparr>count = 0, fails = []\<rparr>), fresh = 0\<rparr>
   = (Inr [Terminal (Failure (MatchFailure (Span 3 5) ''Expected digit{2+}'' 0 None))],
      \<lparr>cells = (\<lambda>_. \<lparr>count = 0, fails = []\<rparr>), fresh = 0\<rparr>)"
proof -
  have a: "Schedule (0::nat) 5 (RepeatHandler 0 2 Infinity 3 ''digit{2+}'' 1 [Prim (7::nat)])
     \<in> set (repeat_next 0 (repeat_min \<lparr>min' = Some 2, max' = None\<rparr>)
               (repeat_max \<lparr>min' = Some 2, max' = None\<rparr>) 3 ''digit{2+}'' 1 [Prim 7] 5)"
    by (simp add: repeat_next_def repeat_min_def repeat_max_def)
  from repeat_state_outputs [of "0::nat" "\<lparr>min' = Some 2, max' = None\<rparr>" "''digit{2+}''"
      "[]::nat list" 3 1 "[Prim (7::nat)]" 5] a
  have "run_handler (RepeatHandler (0::nat) 2 Infinity 3 ''digit{2+}'' 1 [Prim (7::nat)])
     (Failure (MatchFailure (Span 5 5) ''Expected digit'' 0 None))
     \<lparr>cells = (\<lambda>_. \<lparr>count = 0, fails = []\<rparr>), fresh = 0\<rparr>
   = (Inr (if 1 < repeat_min \<lparr>min' = Some 2, max' = None\<rparr>
           then [Terminal (Failure (MatchFailure
                   (Span 3 (start (MatchFailure.span (MatchFailure (Span 5 5) ''Expected digit'' 0 None))))
                   (''Expected '' @ ''digit{2+}'') 0 None))]
           else []),
      \<lparr>cells = (\<lambda>_. \<lparr>count = 0, fails = []\<rparr>), fresh = 0\<rparr>)"
    by blast
  with a show ?thesis by (simp add: repeat_min_def)
qed

text \<open>
  C9: with the options \<^verbatim>\<open>{max: 0}\<close> the bound is \<^verbatim>\<open>0 || Infinity\<close>, that is \<^verbatim>\<open>Infinity\<close>: the
  matcher is the one of the same options without \<open>max\<close>, \<^verbatim>\<open>count < max\<close> holds for every
  count, the child is scheduled at the start, and in every result the activation comes to,
  the handler scheduled there answers a success that makes progress with a result that
  schedules the child again, at the end of that success.
\<close>

theorem repeat_max_zero_unbounded:
  assumes "reaches (repeat p \<lparr>min' = mo, max' = Some 0\<rparr> d stream index) r"
    and "Schedule q i h \<in> set r"
    and "start sp \<noteq> end' sp"
  shows "repeat p \<lparr>min' = mo, max' = Some 0\<rparr> d stream index
           = repeat p \<lparr>min' = mo, max' = None\<rparr> d stream index \<and>
         less_bound cnt (repeat_max \<lparr>min' = mo, max' = Some 0\<rparr>) \<and>
         schedules (repeat p \<lparr>min' = mo, max' = Some 0\<rparr> d stream index) = [(p, index)] \<and>
         (\<exists>r'. run_handler h (Success (MatchSuccess sp v)) hp = (Inr r', hp) \<and>
               schedules r' = [(p, end' sp)])"
proof -
  have mx: "repeat_max \<lparr>min' = mo, max' = Some 0\<rparr> = Infinity"
    by (simp add: repeat_max_def)
  have same: "repeat p \<lparr>min' = mo, max' = Some 0\<rparr> d stream index
                = repeat p \<lparr>min' = mo, max' = None\<rparr> d stream index"
    by (simp add: repeat_def repeat_max_def repeat_min_def)
  have first: "schedules (repeat p \<lparr>min' = mo, max' = Some 0\<rparr> d stream index) = [(p, index)]"
    by (simp add: repeat_def mx schedules_repeat_next)
  from repeat_reaches_handlers [OF assms(1,2)] mx
  obtain c acc
    where h: "h = RepeatHandler p (repeat_min \<lparr>min' = mo, max' = Some 0\<rparr>) Infinity index d c acc"
    by auto
  have again: "\<exists>r'. run_handler h (Success (MatchSuccess sp v)) hp = (Inr r', hp) \<and>
                    schedules r' = [(p, end' sp)]"
    using assms(3) by (simp add: h repeat_process_def schedules_repeat_next)
  from same first again show ?thesis by (simp add: mx)
qed

theorem repeat_max_zero_unbounded_witness:
  "reaches (repeat (0::nat) \<lparr>min' = None, max' = Some 0\<rparr> ''digit*'' ''12'' 0 :: (nat, nat) MatchResult)
     (repeat 0 \<lparr>min' = None, max' = Some 0\<rparr> ''digit*'' ''12'' 0) \<and>
   Schedule 0 0 (RepeatHandler 0 0 Infinity 0 ''digit*'' 0 [])
     \<in> set (repeat (0::nat) \<lparr>min' = None, max' = Some 0\<rparr> ''digit*'' ''12'' 0
              :: (nat, nat) MatchResult) \<and>
   start (Span 0 1) \<noteq> end' (Span 0 1) \<and>
   run_handler (RepeatHandler (0::nat) 0 Infinity 0 ''digit*'' 0 [])
     (Success (MatchSuccess (Span 0 1) (Prim (1::nat))))
     \<lparr>cells = (\<lambda>_. \<lparr>count = 0, fails = []\<rparr>), fresh = 0\<rparr>
   = (Inr [Terminal (Success (MatchSuccess (Span 0 1) (Arr [Prim 1]))),
           Schedule 0 1 (RepeatHandler 0 0 Infinity 0 ''digit*'' 1 [Prim 1])],
      \<lparr>cells = (\<lambda>_. \<lparr>count = 0, fails = []\<rparr>), fresh = 0\<rparr>)"
proof -
  let ?r = "repeat (0::nat) \<lparr>min' = None, max' = Some 0\<rparr> ''digit*'' ''12'' 0
              :: (nat, nat) MatchResult"
  have a: "reaches ?r ?r" by (rule reaches_start)
  have b: "Schedule 0 0 (RepeatHandler 0 0 Infinity 0 ''digit*'' 0 []) \<in> set ?r"
    by (simp add: repeat_def repeat_next_def repeat_min_def repeat_max_def)
  have c: "start (Span 0 1) \<noteq> end' (Span 0 1)" by simp
  from repeat_max_zero_unbounded [OF a b c, of 0 "Prim (1::nat)"
      "\<lparr>cells = (\<lambda>_. \<lparr>count = 0, fails = []\<rparr>), fresh = 0\<rparr>"] a b c
  show ?thesis by (simp add: repeat_process_def repeat_next_def)
qed

section \<open>Alternation\<close>

text \<open>The loop of \<open>findBestFail\<close>: one step either takes the new failure or keeps the old one.\<close>

lemma best_step_cases:
  "best_step b f = f \<and> (priority b < priority f \<or>
       (priority f = priority b \<and> start (MatchFailure.span b) < start (MatchFailure.span f)))
   \<or> best_step b f = b \<and> (priority f < priority b \<or>
       (priority f = priority b \<and> start (MatchFailure.span f) \<le> start (MatchFailure.span b)))"
  by (auto simp: best_step_def)

lemma foldl_best_step_split:
  "\<exists>pre post. b0 # rest = pre @ foldl best_step b0 rest # post \<and>
     (\<forall>f\<in>set pre. priority f < priority (foldl best_step b0 rest) \<or>
        (priority f = priority (foldl best_step b0 rest) \<and>
         start (MatchFailure.span f) < start (MatchFailure.span (foldl best_step b0 rest)))) \<and>
     (\<forall>f\<in>set post. priority f < priority (foldl best_step b0 rest) \<or>
        (priority f = priority (foldl best_step b0 rest) \<and>
         start (MatchFailure.span f) \<le> start (MatchFailure.span (foldl best_step b0 rest))))"
proof (induction rest rule: rev_induct)
  case Nil
  have "b0 # [] = [] @ foldl best_step b0 [] # [] \<and>
     (\<forall>f\<in>set []. priority f < priority (foldl best_step b0 []) \<or>
        (priority f = priority (foldl best_step b0 []) \<and>
         start (MatchFailure.span f) < start (MatchFailure.span (foldl best_step b0 [])))) \<and>
     (\<forall>f\<in>set []. priority f < priority (foldl best_step b0 []) \<or>
        (priority f = priority (foldl best_step b0 []) \<and>
         start (MatchFailure.span f) \<le> start (MatchFailure.span (foldl best_step b0 []))))"
    by simp
  then show ?case by blast
next
  case (snoc x xs)
  let ?b = "foldl best_step b0 xs"
  from snoc obtain pre post where split: "b0 # xs = pre @ ?b # post"
    and lo: "\<forall>f\<in>set pre. priority f < priority ?b \<or>
        (priority f = priority ?b \<and> start (MatchFailure.span f) < start (MatchFailure.span ?b))"
    and hi: "\<forall>f\<in>set post. priority f < priority ?b \<or>
        (priority f = priority ?b \<and> start (MatchFailure.span f) \<le> start (MatchFailure.span ?b))"
    by blast
  have fold: "foldl best_step b0 (xs @ [x]) = best_step ?b x" by simp
  from best_step_cases [of ?b x] consider
    (new) "best_step ?b x = x" and "priority ?b < priority x \<or>
        (priority x = priority ?b \<and> start (MatchFailure.span ?b) < start (MatchFailure.span x))"
  | (old) "best_step ?b x = ?b" and "priority x < priority ?b \<or>
        (priority x = priority ?b \<and> start (MatchFailure.span x) \<le> start (MatchFailure.span ?b))"
    by blast
  then show ?case
  proof cases
    case new
    note gt = new(2)
    have all: "\<forall>f\<in>set (b0 # xs). priority f < priority x \<or>
        (priority f = priority x \<and> start (MatchFailure.span f) < start (MatchFailure.span x))"
    proof
      fix f assume "f \<in> set (b0 # xs)"
      then have "f \<in> set pre \<or> f = ?b \<or> f \<in> set post" by (auto simp: split)
      with lo hi gt show "priority f < priority x \<or>
        (priority f = priority x \<and> start (MatchFailure.span f) < start (MatchFailure.span x))"
        by (elim disjE) force+
    qed
    have "b0 # (xs @ [x]) = (b0 # xs) @ x # [] \<and>
      (\<forall>f\<in>set (b0 # xs). priority f < priority x \<or>
        (priority f = priority x \<and> start (MatchFailure.span f) < start (MatchFailure.span x))) \<and>
      (\<forall>f\<in>set []. priority f < priority x \<or>
        (priority f = priority x \<and> start (MatchFailure.span f) \<le> start (MatchFailure.span x)))"
      using all by simp
    then show ?thesis unfolding fold new(1) by blast
  next
    case old
    note le = old(2)
    have "b0 # (xs @ [x]) = pre @ ?b # (post @ [x]) \<and>
      (\<forall>f\<in>set pre. priority f < priority ?b \<or>
        (priority f = priority ?b \<and> start (MatchFailure.span f) < start (MatchFailure.span ?b))) \<and>
      (\<forall>f\<in>set (post @ [x]). priority f < priority ?b \<or>
        (priority f = priority ?b \<and> start (MatchFailure.span f) \<le> start (MatchFailure.span ?b)))"
      using split lo hi le by auto
    then show ?thesis unfolding fold old(1) by blast
  qed
qed

lemma best_step_same: "best_step b b = b"
  by (simp add: best_step_def)

lemma best_after_loop_Cons: "best_after_loop (f0 # rest) = Some (foldl best_step f0 rest)"
  by (simp add: best_after_loop_def best_step_same)

text \<open>
  C10: for a non-empty list of failures, the failure that \<open>findBestFail\<close> holds in \<open>best\<close>
  after its loop stands at a position of the list such that every failure before it has a
  lower priority, or the same priority and an earlier \<open>span.start\<close>, and every failure after
  it has a lower priority, or the same priority and a \<open>span.start\<close> that is not later. So
  among the failures that share the highest priority and, with it, the latest start, the
  one recorded first is chosen. The result of \<open>findBestFail\<close> is that failure, or the
  generic failure of the parser when that failure starts at \<open>index\<close> with priority 0.
\<close>

theorem findBestFail_earliest_of_the_best:
  assumes "fls \<noteq> []"
  shows "\<exists>pre b post. fls = pre @ b # post \<and> best_after_loop fls = Some b \<and>
     (\<forall>f\<in>set pre. priority f < priority b \<or>
        (priority f = priority b \<and> start (MatchFailure.span f) < start (MatchFailure.span b))) \<and>
     (\<forall>f\<in>set post. priority f < priority b \<or>
        (priority f = priority b \<and> start (MatchFailure.span f) \<le> start (MatchFailure.span b))) \<and>
     findBestFail d index fls
       = Inr (if start (MatchFailure.span b) = index \<and> priority b = 0
              then fail index (Inr d) None else [Terminal (Failure b)])"
proof -
  from assms obtain f0 rest where fls: "fls = f0 # rest" by (cases fls) auto
  let ?b = "foldl best_step f0 rest"
  from foldl_best_step_split [of f0 rest] obtain pre post
    where split: "fls = pre @ ?b # post"
      and lo: "\<forall>f\<in>set pre. priority f < priority ?b \<or>
        (priority f = priority ?b \<and> start (MatchFailure.span f) < start (MatchFailure.span ?b))"
      and hi: "\<forall>f\<in>set post. priority f < priority ?b \<or>
        (priority f = priority ?b \<and> start (MatchFailure.span f) \<le> start (MatchFailure.span ?b))"
    unfolding fls by blast
  have best: "best_after_loop fls = Some ?b"
    by (simp add: fls best_after_loop_Cons)
  have out: "findBestFail d index fls
       = Inr (if start (MatchFailure.span ?b) = index \<and> priority ?b = 0
              then fail index (Inr d) None else [Terminal (Failure ?b)])"
    by (simp add: findBestFail_def best)
  from split lo hi best out show ?thesis by blast
qed


theorem findBestFail_earliest_of_the_best_witness:
  "[MatchFailure (Span 0 0) ''Expected a'' 0 None, MatchFailure (Span 2 2) ''Expected b'' 1 None,
    MatchFailure (Span 2 2) ''Expected c'' 1 None] \<noteq> [] \<and>
   best_after_loop
     [MatchFailure (Span 0 0) ''Expected a'' 0 None, MatchFailure (Span 2 2) ''Expected b'' 1 None,
      MatchFailure (Span 2 2) ''Expected c'' 1 None]
     = Some (MatchFailure (Span 2 2) ''Expected b'' 1 None) \<and>
   (findBestFail ''a or b or c'' 0
     [MatchFailure (Span 0 0) ''Expected a'' 0 None, MatchFailure (Span 2 2) ''Expected b'' 1 None,
      MatchFailure (Span 2 2) ''Expected c'' 1 None] :: nat error + (nat, nat) MatchResult)
     = Inr [Terminal (Failure (MatchFailure (Span 2 2) ''Expected b'' 1 None))]"
proof -
  let ?fls = "[MatchFailure (Span 0 0) ''Expected a'' 0 None,
               MatchFailure (Span 2 2) ''Expected b'' 1 None,
               MatchFailure (Span 2 2) ''Expected c'' 1 None]"
  have ne: "?fls \<noteq> []" by simp
  have best: "best_after_loop ?fls = Some (MatchFailure (Span 2 2) ''Expected b'' 1 None)"
    by (simp add: best_after_loop_def best_step_def)
  from findBestFail_earliest_of_the_best [OF ne, of "''a or b or c''" 0] best
  have "(findBestFail ''a or b or c'' 0 ?fls :: nat error + (nat, nat) MatchResult)
          = Inr [Terminal (Failure (MatchFailure (Span 2 2) ''Expected b'' 1 None))]"
    by auto
  with ne best show ?thesis by simp
qed

















end
